theory Spec2Isabelle
  imports Complex_Main "HOL-Library.Stream"
begin

section \<open>The random attack factory of hyperion\<close>

text \<open>
  A shallow embedding of \<^verbatim>\<open>hyperion/torch/adv_attacks/random_attack_factory.py\<close>:
  the class \<^verbatim>\<open>RandomAttackFactory\<close>, its constructor, its static sampling helpers,
  \<^verbatim>\<open>_sample_attack_args\<close>, \<^verbatim>\<open>sample_attack\<close>, \<^verbatim>\<open>filter_args\<close> and
  \<^verbatim>\<open>add_argparse_args\<close>.

  Conventions of the model:
  \<^item> a finite Python float is a real number: the rounding of \<^verbatim>\<open>math.log\<close>,
    \<^verbatim>\<open>math.exp\<close> and of float arithmetic is not modelled, so that no property below
    speaks of the last digits of a double; the infinities and NaN appear only where the
    source stores them (the norms);
  \<^item> a Python \<^verbatim>\<open>int\<close> is an \<open>int\<close>;
  \<^item> every exception the source can raise is a value of \<open>error\<close>;
  \<^item> the object and torch's process-wide generator form the state that is passed
    through every method.
\<close>

subsection \<open>Python values and exceptions\<close>

text \<open>
  \<open>ConfigurationError\<close> is the error of the specification; no statement of the source
  raises it. The others are raised by torch (\<open>RuntimeError\<close>), by \<^verbatim>\<open>math.log\<close> and
  \<^verbatim>\<open>float\<close> (\<open>ValueError\<close>, \<open>TypeError\<close>) and by list indexing (\<open>IndexError\<close>).
\<close>

datatype error = RuntimeError | ValueError | TypeError | IndexError | ConfigurationError

datatype pyfloat = Finite real | PosInf | NegInf | NaN

text \<open>
  The values that keyword arguments and argparse defaults hold. \<open>PList\<close> is a list or a
  tuple; \<open>PObj\<close> is any other object, known by its identity only (a model, a loss): it
  has no \<^verbatim>\<open>__float__\<close>, \<^verbatim>\<open>__iter__\<close>, \<^verbatim>\<open>__bool__\<close> or \<^verbatim>\<open>__len__\<close>.
\<close>

datatype pyval =
    PNone
  | PBool bool
  | PInt int
  | PFloat pyfloat
  | PStr string
  | PList "pyval list"
  | PObj nat

text \<open>The truth value that \<^verbatim>\<open>not v\<close> tests.\<close>

fun truthy :: "pyval \<Rightarrow> bool" where
  "truthy PNone = False"
| "truthy (PBool b) = b"
| "truthy (PInt i) = (i \<noteq> 0)"
| "truthy (PFloat x) = (x \<noteq> Finite 0)"
| "truthy (PStr s) = (s \<noteq> [])"
| "truthy (PList xs) = (xs \<noteq> [])"
| "truthy (PObj n) = True"

text \<open>
  \<^verbatim>\<open>float(a)\<close>. Reading a float from a string is Python's own parser, taken as the
  parameter \<open>parse\<close>; it raises \<open>ValueError\<close> where the parser has no result.
\<close>

fun py_float :: "(string \<Rightarrow> pyfloat option) \<Rightarrow> pyval \<Rightarrow> error + pyfloat" where
  "py_float parse (PFloat x) = Inr x"
| "py_float parse (PInt i) = Inr (Finite (of_int i))"
| "py_float parse (PBool b) = Inr (Finite (if b then 1 else 0))"
| "py_float parse (PStr s) = (case parse s of None \<Rightarrow> Inl ValueError | Some x \<Rightarrow> Inr x)"
| "py_float parse PNone = Inl TypeError"
| "py_float parse (PList xs) = Inl TypeError"
| "py_float parse (PObj n) = Inl TypeError"

text \<open>The elements that \<^verbatim>\<open>for a in v\<close> visits; a string yields its characters.\<close>

fun py_iter :: "pyval \<Rightarrow> error + pyval list" where
  "py_iter (PList xs) = Inr xs"
| "py_iter (PStr s) = Inr (map (\<lambda>ch. PStr [ch]) s)"
| "py_iter v = Inl TypeError"

text \<open>\<^verbatim>\<open>xs[i]\<close> on a list: a negative index counts from the end.\<close>

definition getitem :: "'a list \<Rightarrow> int \<Rightarrow> error + 'a" where
  "getitem xs i =
     (if 0 \<le> i \<and> i < int (length xs) then Inr (xs ! nat i)
      else if i < 0 \<and> - int (length xs) \<le> i then Inr (xs ! nat (int (length xs) + i))
      else Inl IndexError)"

subsection \<open>The random source\<close>

text \<open>
  torch is not part of the repository. Its process-wide generator is modelled by the
  stream of raw words it is going to output; seeding fixes that stream. Each call of
  \<^verbatim>\<open>torch.rand(size=(1,))\<close> or \<^verbatim>\<open>torch.randint(low, high, size=(1,))\<close> consumes one
  word. \<^verbatim>\<open>torch.rand\<close> returns a single-precision value of \<open>[0, 1)\<close>;
  \<^verbatim>\<open>torch.randint\<close> returns an integer of \<open>[low, high)\<close> and raises a
  \<open>RuntimeError\<close>, before it draws, when \<open>high \<le> low\<close>.
\<close>

type_synonym rng = "nat stream"

definition unit_of :: "nat \<Rightarrow> real" where
  "unit_of w = real (w mod 2 ^ 24) / 2 ^ 24"

definition torch_rand :: "rng \<Rightarrow> (error + real) \<times> rng" where
  "torch_rand g = (Inr (unit_of (shd g)), stl g)"

definition torch_randint :: "int \<Rightarrow> int \<Rightarrow> rng \<Rightarrow> (error + int) \<times> rng" where
  "torch_randint low high g =
     (if high \<le> low then (Inl RuntimeError, g)
      else (Inr (low + int (shd g) mod (high - low)), stl g))"

text \<open>\<^verbatim>\<open>math.log\<close> raises \<open>ValueError\<close> outside the positive numbers.\<close>

definition math_log :: "real \<Rightarrow> error + real" where
  "math_log x = (if x \<le> 0 then Inl ValueError else Inr (ln x))"

subsection \<open>Sequencing with exceptions\<close>

text \<open>A step maps a state to a result or an exception, and the state it leaves.\<close>

definition bind_ex ::
  "('s \<Rightarrow> (error + 'a) \<times> 's) \<Rightarrow> ('a \<Rightarrow> 's \<Rightarrow> (error + 'b) \<times> 's) \<Rightarrow> 's \<Rightarrow> (error + 'b) \<times> 's"
where
  "bind_ex m f s = (case m s of (Inl e, s') \<Rightarrow> (Inl e, s') | (Inr a, s') \<Rightarrow> f a s')"

definition pure_ex :: "error + 'a \<Rightarrow> 's \<Rightarrow> (error + 'a) \<times> 's" where
  "pure_ex r s = (r, s)"

subsection \<open>The static sampling helpers\<close>

definition choice :: "int \<Rightarrow> rng \<Rightarrow> (error + int) \<times> rng" where
  "choice n = torch_randint 0 n"

definition randint :: "int \<Rightarrow> int \<Rightarrow> rng \<Rightarrow> (error + int) \<times> rng" where
  "randint min_val max_val = torch_randint min_val (max_val + 1)"

definition uniform :: "real \<Rightarrow> real \<Rightarrow> rng \<Rightarrow> (error + real) \<times> rng" where
  "uniform min_val max_val =
     bind_ex torch_rand (\<lambda>u. pure_ex (Inr ((max_val - min_val) * u + min_val)))"

text \<open>
  The operands of \<^verbatim>\<open>_log_uniform\<close> are evaluated from left to right:
  \<^verbatim>\<open>math.log(max_val)\<close>, \<^verbatim>\<open>math.log(min_val)\<close>, the draw, \<^verbatim>\<open>math.log(min_val)\<close>
  again, and then \<^verbatim>\<open>math.exp\<close>. Here \<open>ln\<close> and \<open>exp\<close> are the functions on the real
  numbers. The source calls them on doubles, where \<^verbatim>\<open>math.exp(math.log(x))\<close> need not be
  \<open>x\<close>: this definition gives the value the source aims at, not its last digits, and
  decides nothing that depends on them.
\<close>

definition log_uniform :: "real \<Rightarrow> real \<Rightarrow> rng \<Rightarrow> (error + real) \<times> rng" where
  "log_uniform min_val max_val =
     bind_ex (pure_ex (math_log max_val)) (\<lambda>log_max.
     bind_ex (pure_ex (math_log min_val)) (\<lambda>log_min.
     bind_ex torch_rand (\<lambda>u.
     bind_ex (pure_ex (math_log min_val)) (\<lambda>log_min'.
     pure_ex (Inr (exp ((log_max - log_min) * u + log_min')))))))"

subsection \<open>The sampler object\<close>

text \<open>
  The parameters of \<^verbatim>\<open>__init__\<close> after \<^verbatim>\<open>attack_types\<close>. A call passes
  \<open>defaults\<close> with the keywords it gives updated:
  \<^verbatim>\<open>RandomAttackFactory(ts, max_eps=0.5)\<close> is \<open>init ts (defaults\<lparr>max_eps := 1/2\<rparr>)\<close>.
\<close>

record init_args =
  min_eps :: real
  max_eps :: real
  min_snr :: real
  max_snr :: real
  min_alpha :: real
  max_alpha :: real
  norms :: "pyfloat list"
  random_eps :: bool
  min_num_random_init :: int
  max_num_random_init :: int
  min_confidence :: real
  max_confidence :: real
  min_lr :: real
  max_lr :: real
  min_binary_search_steps :: int
  max_binary_search_steps :: int
  min_iter :: int
  max_iter :: int
  abort_early :: bool
  min_c :: real
  max_c :: real
  reduce_c :: bool
  c_incr_factor :: real
  tau_decr_factor :: real
  indep_channels :: bool
  norm_time :: bool
  time_dim :: "int option"
  use_snr :: bool
  loss :: pyval
  targeted :: bool
  range_min :: "real option"
  range_max :: "real option"
  eps_scale :: real

definition defaults :: init_args where
  "defaults =
     \<lparr>min_eps = 1 / 100000, max_eps = 1 / 10,
      min_snr = 30, max_snr = 60,
      min_alpha = 1 / 100000, max_alpha = 2 / 100,
      norms = [PosInf],
      random_eps = False,
      min_num_random_init = 0, max_num_random_init = 3,
      min_confidence = 0, max_confidence = 1,
      min_lr = 1 / 1000, max_lr = 1 / 100,
      min_binary_search_steps = 9, max_binary_search_steps = 9,
      min_iter = 5, max_iter = 10,
      abort_early = True,
      min_c = 1 / 1000, max_c = 1 / 100,
      reduce_c = False,
      c_incr_factor = 2,
      tau_decr_factor = 9 / 10,
      indep_channels = False,
      norm_time = False,
      time_dim = None,
      use_snr = False,
      loss = PNone,
      targeted = False,
      range_min = None, range_max = None,
      eps_scale = 1\<rparr>"

text \<open>The attributes of a \<^verbatim>\<open>RandomAttackFactory\<close>: \<open>self_x\<close> is \<^verbatim>\<open>self.x\<close>.\<close>

record random_attack_factory =
  self_attack_types :: "string list"
  self_min_eps :: real
  self_max_eps :: real
  self_min_snr :: real
  self_max_snr :: real
  self_min_alpha :: real
  self_max_alpha :: real
  self_norms :: "pyfloat list"
  self_random_eps :: bool
  self_min_num_random_init :: int
  self_max_num_random_init :: int
  self_min_confidence :: real
  self_max_confidence :: real
  self_min_lr :: real
  self_max_lr :: real
  self_min_binary_search_steps :: int
  self_max_binary_search_steps :: int
  self_abort_early :: bool
  self_min_iter :: int
  self_max_iter :: int
  self_min_c :: real
  self_max_c :: real
  self_reduce_c :: bool
  self_c_incr_factor :: real
  self_tau_decr_factor :: real
  self_indep_channels :: bool
  self_norm_time :: bool
  self_time_dim :: "int option"
  self_use_snr :: bool
  self_loss :: pyval
  self_targeted :: bool
  self_range_min :: "real option"
  self_range_max :: "real option"
  self_eps_scale :: real

text \<open>
  \<^verbatim>\<open>__init__\<close> stores every argument and has no other statement: nothing is
  checked, nothing is raised.
\<close>

definition init :: "string list \<Rightarrow> init_args \<Rightarrow> error + random_attack_factory" where
  "init attack_types a =
     Inr \<lparr>self_attack_types = attack_types,
          self_min_eps = min_eps a,
          self_max_eps = max_eps a,
          self_min_snr = min_snr a,
          self_max_snr = max_snr a,
          self_min_alpha = min_alpha a,
          self_max_alpha = max_alpha a,
          self_norms = norms a,
          self_random_eps = random_eps a,
          self_min_num_random_init = min_num_random_init a,
          self_max_num_random_init = max_num_random_init a,
          self_min_confidence = min_confidence a,
          self_max_confidence = max_confidence a,
          self_min_lr = min_lr a,
          self_max_lr = max_lr a,
          self_min_binary_search_steps = min_binary_search_steps a,
          self_max_binary_search_steps = max_binary_search_steps a,
          self_abort_early = abort_early a,
          self_min_iter = min_iter a,
          self_max_iter = max_iter a,
          self_min_c = min_c a,
          self_max_c = max_c a,
          self_reduce_c = reduce_c a,
          self_c_incr_factor = c_incr_factor a,
          self_tau_decr_factor = tau_decr_factor a,
          self_indep_channels = indep_channels a,
          self_norm_time = norm_time a,
          self_time_dim = time_dim a,
          self_use_snr = use_snr a,
          self_loss = loss a,
          self_targeted = targeted a,
          self_range_min = range_min a,
          self_range_max = range_max a,
          self_eps_scale = eps_scale a\<rparr>"

text \<open>
  The state a method runs in: the object \<open>this\<close> (Python's \<^verbatim>\<open>self\<close>) and the
  generator \<open>gen\<close>. The static helpers see the generator only.
\<close>

record state =
  this :: random_attack_factory
  gen :: rng

text \<open>
  \<^verbatim>\<open>torch.manual_seed(seed)\<close>, which the caller runs before sampling: it puts the
  generator in the state that the seed determines. The function \<open>words\<close> from seeds
  to streams of words is torch's algorithm, a parameter here.
\<close>

definition manual_seed :: "(int \<Rightarrow> rng) \<Rightarrow> int \<Rightarrow> state \<Rightarrow> state" where
  "manual_seed words seed s = s\<lparr>gen := words seed\<rparr>"

definition draw :: "(rng \<Rightarrow> (error + 'a) \<times> rng) \<Rightarrow> state \<Rightarrow> (error + 'a) \<times> state" where
  "draw m s = (case m (gen s) of (r, g) \<Rightarrow> (r, s\<lparr>gen := g\<rparr>))"

definition opt_val :: "('a \<Rightarrow> pyval) \<Rightarrow> 'a option \<Rightarrow> pyval" where
  "opt_val f x = (case x of None \<Rightarrow> PNone | Some v \<Rightarrow> f v)"

definition real_val :: "real \<Rightarrow> pyval" where
  "real_val x = PFloat (Finite x)"

subsection \<open>Sampling\<close>

text \<open>
  \<^verbatim>\<open>_sample_attack_args\<close>, statement by statement. The dictionary \<^verbatim>\<open>attack_args\<close>
  is a map from keys to values; every \<^verbatim>\<open>self.x\<close> is read from the state current at
  that statement.
\<close>

definition sample_attack_args :: "state \<Rightarrow> (error + (string \<rightharpoonup> pyval)) \<times> state" where
  "sample_attack_args s0 =
    (let attack_args = Map.empty in
     bind_ex (draw (choice (int (length (self_attack_types (this s0)))))) (\<lambda>attack_idx s.
     bind_ex (pure_ex (getitem (self_attack_types (this s)) attack_idx)) (\<lambda>attack_type s.
     let attack_args = attack_args(''attack_type'' \<mapsto> PStr attack_type) in
     bind_ex (draw (log_uniform (self_min_eps (this s)) (self_max_eps (this s)))) (\<lambda>eps s.
     let attack_args = attack_args(''eps'' \<mapsto> real_val eps) in
     bind_ex (draw (log_uniform (min eps (self_min_alpha (this s)))
                                (min eps (self_max_alpha (this s))))) (\<lambda>alpha s.
     let attack_args = attack_args(''alpha'' \<mapsto> real_val alpha) in
     bind_ex (draw (choice (int (length (self_norms (this s)))))) (\<lambda>norm_idx s.
     bind_ex (pure_ex (getitem (self_norms (this s)) norm_idx)) (\<lambda>norm_val s.
     let attack_args = attack_args(''norm'' \<mapsto> PFloat norm_val) in
     let attack_args = attack_args(''random_eps'' \<mapsto> PBool (self_random_eps (this s))) in
     bind_ex (draw (randint (self_min_num_random_init (this s))
                            (self_max_num_random_init (this s)))) (\<lambda>num_random_init s.
     let attack_args = attack_args(''num_random_init'' \<mapsto> PInt num_random_init) in
     bind_ex (draw (uniform (self_min_confidence (this s))
                            (self_max_confidence (this s)))) (\<lambda>confidence s.
     let attack_args = attack_args(''confidence'' \<mapsto> real_val confidence) in
     bind_ex (draw (uniform (self_min_lr (this s)) (self_max_lr (this s)))) (\<lambda>lr s.
     let attack_args = attack_args(''lr'' \<mapsto> real_val lr) in
     bind_ex (draw (randint (self_min_binary_search_steps (this s))
                            (self_max_binary_search_steps (this s)))) (\<lambda>binary_search_steps s.
     let attack_args = attack_args(''binary_search_steps'' \<mapsto> PInt binary_search_steps) in
     bind_ex (draw (randint (self_min_iter (this s)) (self_max_iter (this s)))) (\<lambda>iter s.
     let attack_args = attack_args(''max_iter'' \<mapsto> PInt iter) in
     let attack_args = attack_args(''abort_early'' \<mapsto> PBool (self_abort_early (this s))) in
     bind_ex (draw (uniform (self_min_c (this s)) (self_max_c (this s)))) (\<lambda>c_val s.
     let attack_args = attack_args(''c'' \<mapsto> real_val c_val) in
     let attack_args = attack_args(''reduce_c'' \<mapsto> PBool (self_reduce_c (this s))) in
     let attack_args = attack_args(''c_incr_factor'' \<mapsto> real_val (self_c_incr_factor (this s))) in
     let attack_args = attack_args(''tau_decr_factor'' \<mapsto> real_val (self_tau_decr_factor (this s))) in
     let attack_args = attack_args(''indep_channels'' \<mapsto> PBool (self_indep_channels (this s))) in
     let attack_args = attack_args(''norm_time'' \<mapsto> PBool (self_norm_time (this s))) in
     let attack_args = attack_args(''time_dim'' \<mapsto> opt_val PInt (self_time_dim (this s))) in
     let attack_args = attack_args(''use_snr'' \<mapsto> PBool (self_use_snr (this s))) in
     let attack_args = attack_args(''targeted'' \<mapsto> PBool (self_targeted (this s))) in
     let attack_args = attack_args(''range_min'' \<mapsto> opt_val real_val (self_range_min (this s))) in
     let attack_args = attack_args(''range_max'' \<mapsto> opt_val real_val (self_range_max (this s))) in
     let attack_args = attack_args(''eps_scale'' \<mapsto> real_val (self_eps_scale (this s))) in
     pure_ex (Inr attack_args) s) s) s) s) s) s) s) s) s) s) s) s) s0)"

text \<open>
  \<^verbatim>\<open>sample_attack\<close>. \<^verbatim>\<open>AttackFactory.create\<close> belongs to the module
  \<^verbatim>\<open>attack_factory\<close>; here it is the parameter \<open>AF_create\<close>. It receives the
  dictionary, the model included, and not the sampler; it may use the generator.
\<close>

definition sample_attack ::
  "((string \<rightharpoonup> pyval) \<Rightarrow> rng \<Rightarrow> (error + 'atk) \<times> rng) \<Rightarrow> pyval \<Rightarrow> state \<Rightarrow> (error + 'atk) \<times> state"
where
  "sample_attack AF_create model s0 =
     bind_ex sample_attack_args (\<lambda>attack_args s.
     let attack_args = attack_args(''model'' \<mapsto> model) in
     draw (AF_create attack_args) s) s0"


text \<open>
  The configurations on which no draw of \<^verbatim>\<open>_sample_attack_args\<close> raises: both
  lists have an element, the bounds handed to \<^verbatim>\<open>math.log\<close> are positive and the
  bounds handed to \<^verbatim>\<open>torch.randint\<close> are ordered. The order of the real-valued
  bounds plays no part.
\<close>

definition sample_ok :: "random_attack_factory \<Rightarrow> bool" where
  "sample_ok f \<longleftrightarrow>
     self_attack_types f \<noteq> [] \<and>
     0 < self_min_eps f \<and> 0 < self_max_eps f \<and>
     0 < self_min_alpha f \<and> 0 < self_max_alpha f \<and>
     self_norms f \<noteq> [] \<and>
     self_min_num_random_init f \<le> self_max_num_random_init f \<and>
     self_min_binary_search_steps f \<le> self_max_binary_search_steps f \<and>
     self_min_iter f \<le> self_max_iter f"

text \<open>
  A state to run the sampler in: the sampler that \<^verbatim>\<open>RandomAttackFactory(['fgsm', 'pgd'])\<close>
  constructs and a generator whose first words are 1, \<open>2\<^sup>2\<^sup>3\<close> and \<open>2\<^sup>2\<^sup>2\<close>.
\<close>

definition example_state :: state where
  "example_state =
     \<lparr>this = projr (init [''fgsm'', ''pgd''] defaults),
      gen = 1 ## 8388608 ## 4194304 ## sconst 5\<rparr>"

subsection \<open>Filtering keyword arguments\<close>

text \<open>The list comprehension \<^verbatim>\<open>[float(a) for a in v]\<close> over the elements of \<open>v\<close>.\<close>

fun floats :: "(string \<Rightarrow> pyfloat option) \<Rightarrow> pyval list \<Rightarrow> error + pyval list" where
  "floats parse [] = Inr []"
| "floats parse (a # as) =
     (case py_float parse a of
        Inl e \<Rightarrow> Inl e
      | Inr x \<Rightarrow> (case floats parse as of Inl e \<Rightarrow> Inl e | Inr xs \<Rightarrow> Inr (PFloat x # xs)))"

definition float_list :: "(string \<Rightarrow> pyfloat option) \<Rightarrow> pyval \<Rightarrow> error + pyval" where
  "float_list parse v =
     (case py_iter v of
        Inl e \<Rightarrow> Inl e
      | Inr as \<Rightarrow> (case floats parse as of Inl e \<Rightarrow> Inl e | Inr xs \<Rightarrow> Inr (PList xs)))"

definition valid_args :: "string list" where
  "valid_args =
     [''attack_types'',
      ''min_eps'', ''max_eps'',
      ''min_snr'', ''max_snr'',
      ''norms'', ''random_eps'',
      ''min_num_random_init'', ''max_num_random_init'',
      ''min_alpha'', ''max_alpha'',
      ''min_confidence'', ''max_confidence'',
      ''min_lr'', ''max_lr'',
      ''min_binary_search_steps'', ''max_binary_search_steps'',
      ''min_iter'', ''max_iter'', ''abort_early'',
      ''min_c'', ''max_c'', ''reduce_c'',
      ''c_incr_factor'', ''tau_decr_factor'',
      ''indep_channels'', ''use_snr'', ''norm_time'',
      ''targeted'']"

text \<open>
  \<^verbatim>\<open>filter_args(prefix=None, **kwargs)\<close>. The dictionaries are maps. The result is
  built from the pairs \<^verbatim>\<open>(k, kwargs[p+k])\<close> in the order of \<open>valid_args\<close>, a later
  pair replacing an earlier one with the same key.
\<close>

definition filter_args ::
  "(string \<Rightarrow> pyfloat option) \<Rightarrow> string option \<Rightarrow> (string \<rightharpoonup> pyval) \<Rightarrow> error + (string \<rightharpoonup> pyval)"
where
  "filter_args parse prefix kwargs =
     (let p = (case prefix of None \<Rightarrow> [] | Some pre \<Rightarrow> pre @ ''_'');
          kwargs = (case kwargs (p @ ''no_abort'') of
                      None \<Rightarrow> kwargs
                    | Some v \<Rightarrow> kwargs(p @ ''abort_early'' \<mapsto> PBool (\<not> truthy v)))
      in case (case kwargs (p @ ''norms'') of
                 None \<Rightarrow> Inr kwargs
               | Some v \<Rightarrow> (case float_list parse v of
                              Inl e \<Rightarrow> Inl e
                            | Inr fs \<Rightarrow> Inr (kwargs(p @ ''norms'' \<mapsto> fs)))) of
           Inl e \<Rightarrow> Inl e
         | Inr kwargs \<Rightarrow>
             Inr (map_of (rev (List.map_filter
                    (\<lambda>k. map_option (Pair k) (kwargs (p @ k))) valid_args))))"

subsection \<open>The command-line options\<close>

text \<open>
  An option as \<^verbatim>\<open>parser.add_argument\<close> receives it: its flag, the name of its
  \<^verbatim>\<open>type\<close> conversion (empty when none is given), its \<^verbatim>\<open>default\<close> and its
  \<^verbatim>\<open>action\<close>. The help texts, \<^verbatim>\<open>nargs\<close> and \<^verbatim>\<open>choices\<close> are left out. The parser
  is the list of the options added to it.
\<close>

record argument =
  arg_flag :: string
  arg_type :: string
  arg_default :: pyval
  arg_action :: string

definition add_argument ::
  "argument list \<Rightarrow> string \<Rightarrow> string \<Rightarrow> pyval \<Rightarrow> string \<Rightarrow> argument list"
where
  "add_argument parser flag ty dflt action =
     parser @ [\<lparr>arg_flag = flag, arg_type = ty, arg_default = dflt, arg_action = action\<rparr>]"

definition add_argparse_args :: "argument list \<Rightarrow> string option \<Rightarrow> argument list" where
  "add_argparse_args parser prefix =
     (let p1 = (case prefix of None \<Rightarrow> ''--'' | Some pre \<Rightarrow> ''--'' @ pre @ ''-'');
      parser = add_argument parser (p1 @ ''attack-types'') ''str.lower'' (PList [PStr ''fgsm'']) ''store'';
      parser = add_argument parser (p1 @ ''norms'') ''float'' (PList [PFloat PosInf]) ''store'';
      parser = add_argument parser (p1 @ ''min-eps'') ''float'' (real_val (1 / 100000)) ''store'';
      parser = add_argument parser (p1 @ ''max-eps'') ''float'' (real_val (1 / 10)) ''store'';
      parser = add_argument parser (p1 @ ''min-snr'') ''float'' (PInt 30) ''store'';
      parser = add_argument parser (p1 @ ''max-snr'') ''float'' (PInt 60) ''store'';
      parser = add_argument parser (p1 @ ''min-alpha'') ''float'' (real_val (1 / 100000)) ''store'';
      parser = add_argument parser (p1 @ ''max-alpha'') ''float'' (real_val (2 / 100)) ''store'';
      parser = add_argument parser (p1 @ ''random-eps'') '''' (PBool False) ''store_true'';
      parser = add_argument parser (p1 @ ''min-confidence'') ''float'' (PInt 0) ''store'';
      parser = add_argument parser (p1 @ ''max-confidence'') ''float'' (PInt 1) ''store'';
      parser = add_argument parser (p1 @ ''min-lr'') ''float'' (real_val (1 / 1000)) ''store'';
      parser = add_argument parser (p1 @ ''max-lr'') ''float'' (real_val (1 / 100)) ''store'';
      parser = add_argument parser (p1 @ ''min-binary-search-steps'') ''int'' (PInt 9) ''store'';
      parser = add_argument parser (p1 @ ''max-binary-search-steps'') ''int'' (PInt 9) ''store'';
      parser = add_argument parser (p1 @ ''min-iter'') ''int'' (PInt 5) ''store'';
      parser = add_argument parser (p1 @ ''max-iter'') ''int'' (PInt 10) ''store'';
      parser = add_argument parser (p1 @ ''min-c'') ''float'' (real_val (1 / 1000)) ''store'';
      parser = add_argument parser (p1 @ ''max-c'') ''float'' (real_val (1 / 100)) ''store'';
      parser = add_argument parser (p1 @ ''reduce-c'') '''' (PBool False) ''store_true'';
      parser = add_argument parser (p1 @ ''c-incr-factor'') ''float'' (PInt 2) ''store'';
      parser = add_argument parser (p1 @ ''tau-decr-factor'') ''float'' (real_val (75 / 100)) ''store'';
      parser = add_argument parser (p1 @ ''indep-channels'') '''' (PBool False) ''store_true'';
      parser = add_argument parser (p1 @ ''no-abort'') '''' (PBool False) ''store_true'';
      parser = add_argument parser (p1 @ ''min-num-random-init'') ''int'' (PInt 1) ''store'';
      parser = add_argument parser (p1 @ ''max-num-random-init'') ''int'' (PInt 5) ''store'';
      parser = add_argument parser (p1 @ ''targeted'') '''' (PBool False) ''store_true'';
      parser = add_argument parser (p1 @ ''use-snr'') '''' (PBool False) ''store_true'';
      parser = add_argument parser (p1 @ ''norm-time'') '''' (PBool False) ''store_true''
      in parser)"

section \<open>Properties\<close>

subsection \<open>The primitives\<close>

lemma unit_of_bounds: "0 \<le> unit_of w \<and> unit_of w < 1"
proof -
  have "w mod 2 ^ 24 < (2::nat) ^ 24" by simp
  then have "real (w mod 2 ^ 24) < 2 ^ 24"
    by (metis of_nat_less_iff of_nat_numeral of_nat_power)
  then show ?thesis by (simp add: unit_of_def)
qed

lemma log_uniform_ok:
  "0 < lo \<Longrightarrow> 0 < hi \<Longrightarrow>
   log_uniform lo hi g = (Inr (exp ((ln hi - ln lo) * unit_of (shd g) + ln lo)), stl g)"
  by (simp add: log_uniform_def bind_ex_def pure_ex_def math_log_def torch_rand_def)

lemma log_uniform_fail:
  "lo \<le> 0 \<or> hi \<le> 0 \<Longrightarrow> log_uniform lo hi g = (Inl ValueError, g)"
  by (auto simp add: log_uniform_def bind_ex_def pure_ex_def math_log_def torch_rand_def)

lemma uniform_eq:
  "uniform lo hi g = (Inr ((hi - lo) * unit_of (shd g) + lo), stl g)"
  by (simp add: uniform_def bind_ex_def pure_ex_def torch_rand_def)

lemma randint_ok:
  "lo \<le> hi \<Longrightarrow> randint lo hi g = (Inr (lo + int (shd g) mod (hi + 1 - lo)), stl g)"
  by (simp add: randint_def torch_randint_def)

lemma randint_fail:
  "hi < lo \<Longrightarrow> randint lo hi g = (Inl RuntimeError, g)"
  by (simp add: randint_def torch_randint_def)

lemma choice_ok:
  "0 < n \<Longrightarrow> choice n g = (Inr (int (shd g) mod n), stl g)"
  by (simp add: choice_def torch_randint_def)

lemma choice_fail:
  "n \<le> 0 \<Longrightarrow> choice n g = (Inl RuntimeError, g)"
  by (simp add: choice_def torch_randint_def)

lemma getitem_mod:
  "xs \<noteq> [] \<Longrightarrow> getitem xs (int w mod int (length xs)) = Inr (xs ! (w mod length xs))"
  by (simp add: getitem_def zmod_int [symmetric] del: of_nat_mod)

lemma snth_numerals:
  "g !! 1 = shd (stl g)"
  "g !! 2 = shd (stl (stl g))"
  "g !! 3 = shd (stl (stl (stl g)))"
  "g !! 4 = shd (stl (stl (stl (stl g))))"
  "g !! 5 = shd (stl (stl (stl (stl (stl g)))))"
  "g !! 6 = shd (stl (stl (stl (stl (stl (stl g))))))"
  "g !! 7 = shd (stl (stl (stl (stl (stl (stl (stl g)))))))"
  "g !! 8 = shd (stl (stl (stl (stl (stl (stl (stl (stl g))))))))"
  "g !! 9 = shd (stl (stl (stl (stl (stl (stl (stl (stl (stl g)))))))))"
  "sdrop 10 g = stl (stl (stl (stl (stl (stl (stl (stl (stl (stl g)))))))))"
  by (simp_all add: eval_nat_numeral sdrop_stl)

lemma sample_attack_args_ok:
  assumes ok: "sample_ok (this s)"
  defines "f \<equiv> this s" and "g \<equiv> gen s"
  defines "e \<equiv> exp ((ln (self_max_eps f) - ln (self_min_eps f)) * unit_of (g !! 1)
                      + ln (self_min_eps f))"
  shows "sample_attack_args s =
    (Inr (Map.empty
      (''attack_type'' \<mapsto> PStr (self_attack_types f ! (g !! 0 mod length (self_attack_types f))),
       ''eps'' \<mapsto> real_val e,
       ''alpha'' \<mapsto> real_val (exp ((ln (min e (self_max_alpha f)) - ln (min e (self_min_alpha f)))
                                     * unit_of (g !! 2) + ln (min e (self_min_alpha f)))),
       ''norm'' \<mapsto> PFloat (self_norms f ! (g !! 3 mod length (self_norms f))),
       ''random_eps'' \<mapsto> PBool (self_random_eps f),
       ''num_random_init'' \<mapsto> PInt (self_min_num_random_init f + int (g !! 4)
           mod (self_max_num_random_init f + 1 - self_min_num_random_init f)),
       ''confidence'' \<mapsto> real_val ((self_max_confidence f - self_min_confidence f) * unit_of (g !! 5)
           + self_min_confidence f),
       ''lr'' \<mapsto> real_val ((self_max_lr f - self_min_lr f) * unit_of (g !! 6) + self_min_lr f),
       ''binary_search_steps'' \<mapsto> PInt (self_min_binary_search_steps f + int (g !! 7)
           mod (self_max_binary_search_steps f + 1 - self_min_binary_search_steps f)),
       ''max_iter'' \<mapsto> PInt (self_min_iter f + int (g !! 8)
           mod (self_max_iter f + 1 - self_min_iter f)),
       ''abort_early'' \<mapsto> PBool (self_abort_early f),
       ''c'' \<mapsto> real_val ((self_max_c f - self_min_c f) * unit_of (g !! 9) + self_min_c f),
       ''reduce_c'' \<mapsto> PBool (self_reduce_c f),
       ''c_incr_factor'' \<mapsto> real_val (self_c_incr_factor f),
       ''tau_decr_factor'' \<mapsto> real_val (self_tau_decr_factor f),
       ''indep_channels'' \<mapsto> PBool (self_indep_channels f),
       ''norm_time'' \<mapsto> PBool (self_norm_time f),
       ''time_dim'' \<mapsto> opt_val PInt (self_time_dim f),
       ''use_snr'' \<mapsto> PBool (self_use_snr f),
       ''targeted'' \<mapsto> PBool (self_targeted f),
       ''range_min'' \<mapsto> opt_val real_val (self_range_min f),
       ''range_max'' \<mapsto> opt_val real_val (self_range_max f),
       ''eps_scale'' \<mapsto> real_val (self_eps_scale f))),
     s\<lparr>gen := sdrop 10 g\<rparr>)"
  using ok unfolding f_def g_def e_def sample_ok_def sample_attack_args_def snth_numerals Let_def
  by (simp add: bind_ex_def pure_ex_def draw_def choice_ok getitem_mod log_uniform_ok
      uniform_eq randint_ok del: of_nat_mod fun_upd_apply)


lemma frame_bind:
  "this (snd (m s)) = this s \<Longrightarrow> (\<And>a s'. this (snd (k a s')) = this s') \<Longrightarrow>
   this (snd (bind_ex m k s)) = this s"
  by (cases "m s") (auto simp: bind_ex_def split: sum.splits)

lemma frame_draw: "this (snd (draw m s)) = this s"
  by (simp add: draw_def split: prod.splits)

lemma frame_pure: "this (snd (pure_ex r s)) = this s"
  by (simp add: pure_ex_def)

lemma sample_attack_args_frame: "this (snd (sample_attack_args s)) = this s"
  unfolding sample_attack_args_def Let_def
  by (intro frame_bind frame_draw frame_pure)

lemma sample_attack_frame: "this (snd (sample_attack AF_create model s)) = this s"
  unfolding sample_attack_def Let_def
  by (intro frame_bind frame_draw sample_attack_args_frame)

lemmas step_simps = bind_ex_def pure_ex_def draw_def choice_ok choice_fail getitem_mod
  log_uniform_ok log_uniform_fail uniform_eq randint_ok randint_fail

lemma sample_attack_args_fail:
  assumes "\<not> sample_ok (this s)"
  shows "sample_attack_args s =
           (Inl (if self_attack_types (this s) \<noteq> [] \<and>
                    (self_min_eps (this s) \<le> 0 \<or> self_max_eps (this s) \<le> 0 \<or>
                     self_min_alpha (this s) \<le> 0 \<or> self_max_alpha (this s) \<le> 0)
                 then ValueError else RuntimeError),
            s\<lparr>gen := (if self_attack_types (this s) = [] then gen s
                          else if self_min_eps (this s) \<le> 0 \<or> self_max_eps (this s) \<le> 0
                          then stl (gen s)
                          else if self_min_alpha (this s) \<le> 0 \<or> self_max_alpha (this s) \<le> 0
                          then sdrop 2 (gen s)
                          else if self_norms (this s) = [] then sdrop 3 (gen s)
                          else if self_max_num_random_init (this s) < self_min_num_random_init (this s)
                          then sdrop 4 (gen s)
                          else if self_max_binary_search_steps (this s)
                                  < self_min_binary_search_steps (this s)
                          then sdrop 7 (gen s)
                          else sdrop 8 (gen s))\<rparr>)"
proof -
  let ?f = "this s"
  have drops:
    "sdrop 2 (gen s) = stl (stl (gen s))"
    "sdrop 3 (gen s) = stl (stl (stl (gen s)))"
    "sdrop 4 (gen s) = stl (stl (stl (stl (gen s))))"
    "sdrop 7 (gen s) = stl (stl (stl (stl (stl (stl (stl (gen s)))))))"
    "sdrop 8 (gen s) = stl (stl (stl (stl (stl (stl (stl (stl (gen s))))))))"
    by (simp_all add: eval_nat_numeral sdrop_stl)
  consider
      (types) "self_attack_types ?f = []"
    | (eps) "self_attack_types ?f \<noteq> []" "self_min_eps ?f \<le> 0 \<or> self_max_eps ?f \<le> 0"
    | (alpha) "self_attack_types ?f \<noteq> []" "0 < self_min_eps ?f" "0 < self_max_eps ?f"
        "self_min_alpha ?f \<le> 0 \<or> self_max_alpha ?f \<le> 0"
    | (norms) "self_attack_types ?f \<noteq> []" "0 < self_min_eps ?f" "0 < self_max_eps ?f"
        "0 < self_min_alpha ?f" "0 < self_max_alpha ?f" "self_norms ?f = []"
    | (init) "self_attack_types ?f \<noteq> []" "0 < self_min_eps ?f" "0 < self_max_eps ?f"
        "0 < self_min_alpha ?f" "0 < self_max_alpha ?f" "self_norms ?f \<noteq> []"
        "self_max_num_random_init ?f < self_min_num_random_init ?f"
    | (steps) "self_attack_types ?f \<noteq> []" "0 < self_min_eps ?f" "0 < self_max_eps ?f"
        "0 < self_min_alpha ?f" "0 < self_max_alpha ?f" "self_norms ?f \<noteq> []"
        "self_min_num_random_init ?f \<le> self_max_num_random_init ?f"
        "self_max_binary_search_steps ?f < self_min_binary_search_steps ?f"
    | (iter) "self_attack_types ?f \<noteq> []" "0 < self_min_eps ?f" "0 < self_max_eps ?f"
        "0 < self_min_alpha ?f" "0 < self_max_alpha ?f" "self_norms ?f \<noteq> []"
        "self_min_num_random_init ?f \<le> self_max_num_random_init ?f"
        "self_min_binary_search_steps ?f \<le> self_max_binary_search_steps ?f"
        "self_max_iter ?f < self_min_iter ?f"
    using assms unfolding sample_ok_def by (meson not_le)
  then show ?thesis
  proof cases
    case types
    then show ?thesis
      unfolding sample_attack_args_def Let_def drops by (simp add: step_simps)
  next
    case eps
    then show ?thesis
      unfolding sample_attack_args_def Let_def drops
      by (auto simp add: step_simps simp del: of_nat_mod fun_upd_apply)
  next
    case alpha
    then show ?thesis
      unfolding sample_attack_args_def Let_def drops
      by (auto simp add: step_simps min_le_iff_disj simp del: of_nat_mod fun_upd_apply)
  next
    case norms
    then show ?thesis
      unfolding sample_attack_args_def Let_def drops
      by (simp add: step_simps del: of_nat_mod fun_upd_apply)
  next
    case init
    then show ?thesis
      unfolding sample_attack_args_def Let_def drops
      by (simp add: step_simps del: of_nat_mod fun_upd_apply)
  next
    case steps
    then show ?thesis
      unfolding sample_attack_args_def Let_def drops
      by (simp add: step_simps del: of_nat_mod fun_upd_apply)
  next
    case iter
    then show ?thesis
      unfolding sample_attack_args_def Let_def drops
      by (simp add: step_simps del: of_nat_mod fun_upd_apply)
  qed
qed

subsection \<open>Arithmetic of the draws\<close>

text \<open>
  A value \<open>(hi - lo) * u + lo\<close> with \<open>u\<close> in the unit interval lies between \<open>lo\<close> and
  \<open>hi\<close>, whichever of them is the smaller one.
\<close>

lemma affine_between:
  fixes lo hi u :: real
  assumes "0 \<le> u" "u \<le> 1"
  shows "min lo hi \<le> (hi - lo) * u + lo" and "(hi - lo) * u + lo \<le> max lo hi"
proof -
  have eq: "(hi - lo) * u + lo = (1 - u) * lo + u * hi" by (simp add: algebra_simps)
  have a: "(1 - u) * min lo hi \<le> (1 - u) * lo" "u * min lo hi \<le> u * hi"
    using assms by (simp_all add: mult_left_mono)
  have b: "(1 - u) * lo \<le> (1 - u) * max lo hi" "u * hi \<le> u * max lo hi"
    using assms by (simp_all add: mult_left_mono)
  have "min lo hi = (1 - u) * min lo hi + u * min lo hi" by (simp add: algebra_simps)
  also have "\<dots> \<le> (1 - u) * lo + u * hi" using a by linarith
  finally show "min lo hi \<le> (hi - lo) * u + lo" by (simp add: eq)
  have "(1 - u) * lo + u * hi \<le> (1 - u) * max lo hi + u * max lo hi" using b by linarith
  also have "\<dots> = max lo hi" by (simp add: algebra_simps)
  finally show "(hi - lo) * u + lo \<le> max lo hi" by (simp add: eq)
qed

lemma uniform_between:
  "min lo hi \<le> (hi - lo) * unit_of w + lo \<and> (hi - lo) * unit_of w + lo \<le> max lo hi"
proof -
  have u: "0 \<le> unit_of w" "unit_of w \<le> 1"
    using unit_of_bounds [of w] by simp_all
  show ?thesis
    by (rule conjI) (rule affine_between [OF u])+
qed

lemma log_uniform_between:
  assumes "0 < lo" "0 < hi"
  shows "min lo hi \<le> exp ((ln hi - ln lo) * unit_of w + ln lo) \<and>
         exp ((ln hi - ln lo) * unit_of w + ln lo) \<le> max lo hi"
proof -
  let ?x = "(ln hi - ln lo) * unit_of w + ln lo"
  have x: "min (ln lo) (ln hi) \<le> ?x" "?x \<le> max (ln lo) (ln hi)"
    using uniform_between [of "ln lo" "ln hi" w] by simp_all
  have mn: "min lo hi = exp (min (ln lo) (ln hi))"
    using assms by (simp add: min_def)
  have mx: "max lo hi = exp (max (ln lo) (ln hi))"
    using assms by (simp add: max_def)
  show ?thesis using x by (simp add: mn mx)
qed

subsection \<open>When sampling returns\<close>

lemma sample_attack_args_okD:
  assumes "sample_attack_args s = (Inr a, s')"
  shows "sample_ok (this s)"
proof (rule ccontr)
  assume "\<not> sample_ok (this s)"
  from sample_attack_args_fail [OF this] assms show False by simp
qed

lemma sample_attack_args_returns:
  "(\<exists>a s'. sample_attack_args s = (Inr a, s')) \<longleftrightarrow> sample_ok (this s)"
  using sample_attack_args_okD sample_attack_args_ok by blast





subsection \<open>The budget and the step size in exact arithmetic\<close>

text \<open>
  The lemmas of this subsection are about \<open>exp\<close> and \<open>ln\<close> on the real numbers. They
  say what \<^verbatim>\<open>_log_uniform\<close> aims at and do not bound the rounding of the doubles
  that the source computes with. When the two bounds of a draw are equal, the exact
  value is the bound itself, whatever the draw: the interval leaves no room for a
  result of \<^verbatim>\<open>math.exp(math.log(x))\<close> that is not \<open>x\<close>.
\<close>

lemma log_uniform_equal_bounds:
  "0 < x \<Longrightarrow> log_uniform x x g = (Inr x, stl g)"
  by (simp add: log_uniform_ok)

text \<open>
  In exact arithmetic, a run of \<^verbatim>\<open>_sample_attack_args\<close> that returns holds an
  \<open>alpha\<close> that is at most its \<open>eps\<close>: \<open>alpha\<close> is the exponential of a uniform
  draw between the logarithms of \<open>min eps min_alpha\<close> and \<open>min eps max_alpha\<close>.
  When \<open>eps\<close> is at most \<open>min_alpha\<close> and \<open>max_alpha\<close>, both bounds are \<open>eps\<close>.
\<close>

lemma exact_alpha_le_eps:
  assumes "sample_attack_args s = (Inr a, s')"
  shows "\<exists>e al. a ''eps'' = Some (real_val e) \<and> a ''alpha'' = Some (real_val al) \<and>
           al = exp ((ln (min e (self_max_alpha (this s))) - ln (min e (self_min_alpha (this s))))
                       * unit_of (gen s !! 2) + ln (min e (self_min_alpha (this s)))) \<and>
           al \<le> e"
proof -
  let ?f = "this s"
  let ?e = "exp ((ln (self_max_eps ?f) - ln (self_min_eps ?f)) * unit_of (gen s !! 1)
                 + ln (self_min_eps ?f))"
  let ?lo = "min ?e (self_min_alpha ?f)"
  let ?hi = "min ?e (self_max_alpha ?f)"
  let ?al = "exp ((ln ?hi - ln ?lo) * unit_of (gen s !! 2) + ln ?lo)"
  have ok: "sample_ok ?f" by (rule sample_attack_args_okD [OF assms])
  have a: "a ''eps'' = Some (real_val ?e)" "a ''alpha'' = Some (real_val ?al)"
    using assms sample_attack_args_ok [OF ok] by auto
  have pos: "0 < ?lo" "0 < ?hi"
    using ok by (simp_all add: sample_ok_def)
  have "?al \<le> max ?lo ?hi"
    using log_uniform_between [OF pos] by simp
  also have "\<dots> \<le> ?e" by simp
  finally show ?thesis using a by blast
qed

text \<open>
  In exact arithmetic and with \<open>0 < min_eps \<le> max_eps\<close>, the sampled \<open>eps\<close> is
  \<open>exp x\<close> for \<open>x = (ln max_eps - ln min_eps) * u + ln min_eps\<close>, where \<open>u\<close> is the
  draw of \<^verbatim>\<open>torch.rand\<close> from the second word of the generator; \<open>x\<close> lies between
  \<open>ln min_eps\<close> and \<open>ln max_eps\<close>, and \<open>eps\<close> between \<open>min_eps\<close> and \<open>max_eps\<close>.
\<close>

lemma exact_eps_in_range:
  assumes "0 < self_min_eps (this s)"
    and "self_min_eps (this s) \<le> self_max_eps (this s)"
    and "sample_attack_args s = (Inr a, s')"
  shows "\<exists>x. x = (ln (self_max_eps (this s)) - ln (self_min_eps (this s))) * unit_of (gen s !! 1)
                 + ln (self_min_eps (this s)) \<and>
             ln (self_min_eps (this s)) \<le> x \<and> x \<le> ln (self_max_eps (this s)) \<and>
             a ''eps'' = Some (real_val (exp x)) \<and>
             self_min_eps (this s) \<le> exp x \<and> exp x \<le> self_max_eps (this s)"
proof -
  let ?f = "this s"
  let ?x = "(ln (self_max_eps ?f) - ln (self_min_eps ?f)) * unit_of (gen s !! 1)
            + ln (self_min_eps ?f)"
  have ok: "sample_ok ?f" by (rule sample_attack_args_okD [OF assms(3)])
  have a: "a ''eps'' = Some (real_val (exp ?x))"
    using assms(3) sample_attack_args_ok [OF ok] by auto
  have pos: "0 < self_min_eps ?f" "0 < self_max_eps ?f"
    using assms(1,2) by simp_all
  have ln_le: "ln (self_min_eps ?f) \<le> ln (self_max_eps ?f)"
    using assms(1,2) by simp
  have x: "ln (self_min_eps ?f) \<le> ?x" "?x \<le> ln (self_max_eps ?f)"
    using uniform_between [of "ln (self_min_eps ?f)" "ln (self_max_eps ?f)" "gen s !! 1"] ln_le
    by simp_all
  have e: "self_min_eps ?f \<le> exp ?x" "exp ?x \<le> self_max_eps ?f"
    using log_uniform_between [OF pos, of "gen s !! 1"] assms(2) by simp_all
  show ?thesis using a x e by blast
qed


subsection \<open>The sampled integers and the uniform fields\<close>







subsection \<open>The drawn list elements and the flags\<close>



subsection \<open>The object is only read\<close>

text \<open>
  Claim C10. \<^verbatim>\<open>_sample_attack_args\<close> and \<^verbatim>\<open>sample_attack\<close> leave the object as
  it was, whether they return or raise: every attribute is a field of \<open>this\<close>.
\<close>

theorem sampling_keeps_object:
  "this (snd (sample_attack_args s)) = this s \<and>
   this (snd (sample_attack AF_create model s)) = this s"
  by (simp add: sample_attack_args_frame sample_attack_frame)

subsection \<open>Determinism\<close>

text \<open>
  The outcome of a run depends on the object and on the first ten words of the
  generator, and on nothing else.
\<close>

lemma stake_snth_eq:
  assumes "stake n g = stake n h" and "k < n"
  shows "g !! k = h !! k"
  by (metis assms stake_nth)

lemma sample_attack_args_reads_ten_words:
  assumes "this s1 = this s2" and "stake 10 (gen s1) = stake 10 (gen s2)"
  shows "fst (sample_attack_args s1) = fst (sample_attack_args s2)"
proof (cases "sample_ok (this s1)")
  case True
  then have ok2: "sample_ok (this s2)" using assms(1) by simp
  have w: "gen s1 !! 0 = gen s2 !! 0" "gen s1 !! 1 = gen s2 !! 1" "gen s1 !! 2 = gen s2 !! 2"
    "gen s1 !! 3 = gen s2 !! 3" "gen s1 !! 4 = gen s2 !! 4" "gen s1 !! 5 = gen s2 !! 5"
    "gen s1 !! 6 = gen s2 !! 6" "gen s1 !! 7 = gen s2 !! 7" "gen s1 !! 8 = gen s2 !! 8"
    "gen s1 !! 9 = gen s2 !! 9"
    by (rule stake_snth_eq [OF assms(2)], simp)+
  show ?thesis
    unfolding sample_attack_args_ok [OF True] sample_attack_args_ok [OF ok2] fst_conv w assms(1)
    by (rule refl)
next
  case False
  then have no2: "\<not> sample_ok (this s2)" using assms(1) by simp
  show ?thesis
    unfolding sample_attack_args_fail [OF False] sample_attack_args_fail [OF no2] fst_conv assms(1)
    by (rule refl)
qed


lemma stake_shift_same: "stake n (stake n g @- t) = stake n g"
  by (simp add: stake_shift)

lemma snth_shift_same: "(stake n g @- t) !! n = shd t"
  by simp

text \<open>
  Claim C3. A run of \<^verbatim>\<open>_sample_attack_args\<close> made right after
  \<^verbatim>\<open>torch.manual_seed(seed)\<close> has the same outcome (the same dictionary, field by
  field, or the same exception) as the run before it that was made right after the same
  seeding, and as such a run on any other sampler with the same attributes. More
  generally, two runs on samplers with the same attributes have the same outcome as
  soon as the generators agree on their first ten words.
\<close>

theorem sampling_deterministic:
  "fst (sample_attack_args
          (manual_seed words seed (snd (sample_attack_args (manual_seed words seed s)))))
     = fst (sample_attack_args (manual_seed words seed s)) \<and>
   (this s1 = this s2 \<longrightarrow>
      fst (sample_attack_args (manual_seed words seed s1))
        = fst (sample_attack_args (manual_seed words seed s2))) \<and>
   (this s1 = this s2 \<and> stake 10 (gen s1) = stake 10 (gen s2) \<longrightarrow>
      fst (sample_attack_args s1) = fst (sample_attack_args s2))"
proof -
  let ?s = "manual_seed words seed s"
  let ?t = "manual_seed words seed (snd (sample_attack_args ?s))"
  have "this ?t = this (snd (sample_attack_args ?s))" by (simp add: manual_seed_def)
  also have "\<dots> = this ?s" by (rule sample_attack_args_frame)
  finally have obj: "this ?t = this ?s" .
  have gen: "stake 10 (gen ?t) = stake 10 (gen ?s)" by (simp add: manual_seed_def)
  have a: "fst (sample_attack_args ?t) = fst (sample_attack_args ?s)"
    by (rule sample_attack_args_reads_ten_words [OF obj gen])
  have b: "fst (sample_attack_args (manual_seed words seed s1))
        = fst (sample_attack_args (manual_seed words seed s2))" if "this s1 = this s2"
    by (rule sample_attack_args_reads_ten_words) (simp_all add: manual_seed_def that)
  have c: "fst (sample_attack_args s1) = fst (sample_attack_args s2)"
    if "this s1 = this s2 \<and> stake 10 (gen s1) = stake 10 (gen s2)"
    using that by (blast intro: sample_attack_args_reads_ten_words)
  show ?thesis using a b c by blast
qed

theorem sampling_deterministic_witness:
  "this example_state = this (example_state\<lparr>gen := stake 10 (gen example_state) @- sconst 7\<rparr>) \<and>
   stake 10 (gen example_state)
     = stake 10 (gen (example_state\<lparr>gen := stake 10 (gen example_state) @- sconst 7\<rparr>)) \<and>
   gen example_state !! 10 = 5 \<and>
   gen (example_state\<lparr>gen := stake 10 (gen example_state) @- sconst 7\<rparr>) !! 10 = 7 \<and>
   fst (sample_attack_args example_state)
     = fst (sample_attack_args (example_state\<lparr>gen := stake 10 (gen example_state) @- sconst 7\<rparr>)) \<and>
   fst (sample_attack_args (manual_seed (\<lambda>n. sconst (nat n)) 3 example_state))
     = fst (sample_attack_args
             (manual_seed (\<lambda>n. sconst (nat n)) 3
                (example_state\<lparr>gen := stake 10 (gen example_state) @- sconst 7\<rparr>)))"
proof -
  let ?s2 = "example_state\<lparr>gen := stake 10 (gen example_state) @- sconst 7\<rparr>"
  note t = sampling_deterministic [of "\<lambda>n. sconst (nat n)" 3 example_state example_state ?s2]
  have g2: "gen ?s2 = stake 10 (gen example_state) @- sconst 7"
    by simp
  have h1: "this example_state = this ?s2" by simp
  have h2: "stake 10 (gen example_state) = stake 10 (gen ?s2)"
    unfolding g2 by (simp only: stake_shift_same)
  have g1: "gen example_state = [1, 8388608, 4194304] @- sconst 5"
    by (simp add: example_state_def)
  have d1: "gen example_state !! 10 = 5"
    unfolding g1 by (simp only: shift_snth_ge snth_siterate id_funpow id_apply list.size)
  have d2: "gen ?s2 !! 10 = 7"
    unfolding g2 by (simp only: snth_shift_same siterate.simps)
  have c1: "fst (sample_attack_args example_state) = fst (sample_attack_args ?s2)"
    using t [THEN conjunct2, THEN conjunct2] h1 h2 by blast
  have c2: "fst (sample_attack_args (manual_seed (\<lambda>n. sconst (nat n)) 3 example_state))
     = fst (sample_attack_args (manual_seed (\<lambda>n. sconst (nat n)) 3 ?s2))"
    using t [THEN conjunct2, THEN conjunct1] h1 by blast
  show ?thesis by (intro conjI h1 h2 d1 d2 c1 c2)
qed


subsection \<open>The range of the confidence\<close>




subsection \<open>Ranges with the minimum above the maximum\<close>





subsection \<open>The two defaults of the tau factor\<close>

text \<open>
  Claim C7. The constructor's default of \<open>tau_decr_factor\<close> is 0.9, so an object
  constructed from the defaults holds 0.9; \<^verbatim>\<open>add_argparse_args\<close> adds to the parser
  one option with the flag \<^verbatim>\<open>tau-decr-factor\<close>, and its default is 0.75; the two
  differ.
\<close>

theorem tau_decr_factor_defaults_differ:
  "tau_decr_factor defaults = 9 / 10 \<and>
   (\<exists>f. init attack_types defaults = Inr f \<and> self_tau_decr_factor f = 9 / 10) \<and>
   filter (\<lambda>a. arg_flag a = (case prefix of None \<Rightarrow> ''--'' | Some pre \<Rightarrow> ''--'' @ pre @ ''-'')
                               @ ''tau-decr-factor'')
     (add_argparse_args parser prefix) =
     filter (\<lambda>a. arg_flag a = (case prefix of None \<Rightarrow> ''--'' | Some pre \<Rightarrow> ''--'' @ pre @ ''-'')
                               @ ''tau-decr-factor'') parser @
     [\<lparr>arg_flag = (case prefix of None \<Rightarrow> ''--'' | Some pre \<Rightarrow> ''--'' @ pre @ ''-'')
                    @ ''tau-decr-factor'',
       arg_type = ''float'', arg_default = real_val (75 / 100), arg_action = ''store''\<rparr>] \<and>
   real_val (9 / 10) \<noteq> real_val (75 / 100)"
proof -
  have a: "tau_decr_factor defaults = 9 / 10" by (simp add: defaults_def)
  have b: "\<exists>f. init attack_types defaults = Inr f \<and> self_tau_decr_factor f = 9 / 10"
    by (simp add: init_def defaults_def)
  have c: "filter (\<lambda>a. arg_flag a = (case prefix of None \<Rightarrow> ''--'' | Some pre \<Rightarrow> ''--'' @ pre @ ''-'')
                               @ ''tau-decr-factor'')
     (add_argparse_args parser prefix) =
     filter (\<lambda>a. arg_flag a = (case prefix of None \<Rightarrow> ''--'' | Some pre \<Rightarrow> ''--'' @ pre @ ''-'')
                               @ ''tau-decr-factor'') parser @
     [\<lparr>arg_flag = (case prefix of None \<Rightarrow> ''--'' | Some pre \<Rightarrow> ''--'' @ pre @ ''-'')
                    @ ''tau-decr-factor'',
       arg_type = ''float'', arg_default = real_val (75 / 100), arg_action = ''store''\<rparr>]"
    by (cases prefix) (simp_all add: add_argparse_args_def add_argument_def Let_def)
  have d: "real_val (9 / 10) \<noteq> real_val (75 / 100)" by (simp add: real_val_def)
  show ?thesis by (intro conjI a b c d)
qed

subsection \<open>What filter_args returns\<close>

text \<open>
  The dictionary comprehension of \<^verbatim>\<open>filter_args\<close> maps a key of \<open>valid_args\<close> to
  what \<^verbatim>\<open>kwargs\<close> holds under the prefixed key, and has no other key.
\<close>

lemma collect_lookup:
  "map_of (rev (List.map_filter (\<lambda>k. map_option (Pair k) (m (p @ k))) ks)) k =
     (if k \<in> set ks then m (p @ k) else None)"
  by (induction ks) (auto simp: List.map_filter_simps map_add_def split: option.splits if_splits)

lemma floats_error:
  "floats parse as = Inl e \<Longrightarrow> e = TypeError \<or> e = ValueError"
proof (induction as)
  case Nil
  then show ?case by simp
next
  case (Cons a as)
  then show ?case
    by (cases a) (auto split: sum.splits option.splits)
qed

lemma float_list_error:
  "float_list parse v = Inl e \<Longrightarrow> e = TypeError \<or> e = ValueError"
  by (cases v) (auto simp: float_list_def dest: floats_error split: sum.splits)

lemma filter_args_eq:
  fixes prefix :: "string option"
  defines "p \<equiv> (case prefix of None \<Rightarrow> [] | Some pre \<Rightarrow> pre @ ''_'')"
  shows "filter_args parse prefix kwargs =
     (case (case kwargs (p @ ''norms'') of
              None \<Rightarrow> Inr None
            | Some v \<Rightarrow> (case float_list parse v of Inl e \<Rightarrow> Inl e | Inr fs \<Rightarrow> Inr (Some fs))) of
        Inl e \<Rightarrow> Inl e
      | Inr norms_entry \<Rightarrow>
          Inr (\<lambda>k. if k \<notin> set valid_args then None
                   else if k = ''norms'' then norms_entry
                   else if k = ''abort_early'' then
                     (case kwargs (p @ ''no_abort'') of
                        None \<Rightarrow> kwargs (p @ ''abort_early'')
                      | Some v \<Rightarrow> Some (PBool (\<not> truthy v)))
                   else kwargs (p @ k)))"
  unfolding filter_args_def Let_def p_def [symmetric] collect_lookup
  by (auto simp: fun_eq_iff valid_args_def split: option.splits sum.splits)


text \<open>
  Claim C9 says that \<^verbatim>\<open>filter_args\<close> returns a dictionary for every mapping. The
  comprehension \<^verbatim>\<open>[float(a) for a in kwargs[p + 'norms']]\<close> runs first:
  \<^verbatim>\<open>filter_args(norms=None)\<close> raises the \<open>TypeError\<close> of iterating over \<^verbatim>\<open>None\<close>.
\<close>

theorem filter_args_rejects_norms_None:
  "filter_args Map.empty None [''norms'' \<mapsto> PNone] = Inl TypeError"
  by (simp add: filter_args_def float_list_def)

text \<open>
  Claim C9, amended. With \<open>p\<close> the prefix followed by an underscore, or empty without
  a prefix: when \<^verbatim>\<open>kwargs\<close> holds under \<open>p + norms\<close> a value that is not a sequence
  of values that \<^verbatim>\<open>float\<close> accepts, \<^verbatim>\<open>filter_args\<close> raises the \<open>TypeError\<close> or
  \<open>ValueError\<close> of that conversion; otherwise it returns. The dictionary it returns has
  keys of \<open>valid_args\<close> only (so every other key is dropped); under such a key \<open>k\<close> it
  holds what \<^verbatim>\<open>kwargs\<close> holds under \<open>p + k\<close>, with two exceptions: \<open>norms\<close> holds the
  list of the converted values, and \<open>abort_early\<close> holds the negation of the value under
  \<open>p + no_abort\<close> when that key is present.
\<close>

theorem filter_args_result:
  fixes prefix :: "string option"
  defines "p \<equiv> (case prefix of None \<Rightarrow> [] | Some pre \<Rightarrow> pre @ ''_'')"
  shows
    "(\<forall>v e. kwargs (p @ ''norms'') = Some v \<and> float_list parse v = Inl e \<longrightarrow>
        filter_args parse prefix kwargs = Inl e \<and> (e = TypeError \<or> e = ValueError)) \<and>
     (kwargs (p @ ''norms'') = None \<or>
      (\<exists>v fs. kwargs (p @ ''norms'') = Some v \<and> float_list parse v = Inr fs) \<longrightarrow>
        (\<exists>args. filter_args parse prefix kwargs = Inr args)) \<and>
     (\<forall>args. filter_args parse prefix kwargs = Inr args \<longrightarrow>
        dom args \<subseteq> set valid_args \<and>
        (\<forall>k. k \<in> set valid_args \<and> k \<noteq> ''norms'' \<and> k \<noteq> ''abort_early'' \<longrightarrow>
             args k = kwargs (p @ k)) \<and>
        (\<forall>v. kwargs (p @ ''no_abort'') = Some v \<longrightarrow>
             args ''abort_early'' = Some (PBool (\<not> truthy v))) \<and>
        (kwargs (p @ ''no_abort'') = None \<longrightarrow> args ''abort_early'' = kwargs (p @ ''abort_early'')) \<and>
        (\<forall>v. kwargs (p @ ''norms'') = Some v \<longrightarrow>
             (\<exists>fs. float_list parse v = Inr fs \<and> args ''norms'' = Some fs)) \<and>
        (kwargs (p @ ''norms'') = None \<longrightarrow> args ''norms'' = None))"
proof -
  note eq = filter_args_eq [of parse prefix kwargs, folded p_def]
  have mem: "''norms'' \<in> set valid_args" "''abort_early'' \<in> set valid_args"
    by (simp_all add: valid_args_def)
  have c1: "filter_args parse prefix kwargs = Inl e \<and> (e = TypeError \<or> e = ValueError)"
    if "kwargs (p @ ''norms'') = Some v \<and> float_list parse v = Inl e" for v e
    using that float_list_error [of parse v e] by (simp add: eq)
  have c2: "\<exists>args. filter_args parse prefix kwargs = Inr args"
    if "kwargs (p @ ''norms'') = None \<or>
        (\<exists>v fs. kwargs (p @ ''norms'') = Some v \<and> float_list parse v = Inr fs)"
    using that by (auto simp: eq)
  have c3: "dom args \<subseteq> set valid_args \<and>
        (\<forall>k. k \<in> set valid_args \<and> k \<noteq> ''norms'' \<and> k \<noteq> ''abort_early'' \<longrightarrow>
             args k = kwargs (p @ k)) \<and>
        (\<forall>v. kwargs (p @ ''no_abort'') = Some v \<longrightarrow>
             args ''abort_early'' = Some (PBool (\<not> truthy v))) \<and>
        (kwargs (p @ ''no_abort'') = None \<longrightarrow> args ''abort_early'' = kwargs (p @ ''abort_early'')) \<and>
        (\<forall>v. kwargs (p @ ''norms'') = Some v \<longrightarrow>
             (\<exists>fs. float_list parse v = Inr fs \<and> args ''norms'' = Some fs)) \<and>
        (kwargs (p @ ''norms'') = None \<longrightarrow> args ''norms'' = None)"
    if r: "filter_args parse prefix kwargs = Inr args" for args
  proof (cases "kwargs (p @ ''norms'')")
    case None
    with r have a: "args = (\<lambda>k. if k \<notin> set valid_args then None
                   else if k = ''norms'' then None
                   else if k = ''abort_early'' then
                     (case kwargs (p @ ''no_abort'') of
                        None \<Rightarrow> kwargs (p @ ''abort_early'')
                      | Some v \<Rightarrow> Some (PBool (\<not> truthy v)))
                   else kwargs (p @ k))"
      by (simp add: eq)
    show ?thesis
      unfolding a using None mem by (auto simp: dom_def split: if_splits)
  next
    case (Some v)
    with r obtain fs where fs: "float_list parse v = Inr fs"
      and a: "args = (\<lambda>k. if k \<notin> set valid_args then None
                   else if k = ''norms'' then Some fs
                   else if k = ''abort_early'' then
                     (case kwargs (p @ ''no_abort'') of
                        None \<Rightarrow> kwargs (p @ ''abort_early'')
                      | Some v \<Rightarrow> Some (PBool (\<not> truthy v)))
                   else kwargs (p @ k))"
      by (auto simp: eq split: sum.splits)
    show ?thesis
      unfolding a using Some fs mem by (auto simp: dom_def split: if_splits)
  qed
  show ?thesis
    using c1 c2 c3 by blast
qed


theorem filter_args_result_witness:
  "[''norms'' \<mapsto> PNone] ([] @ ''norms'') = Some PNone \<and>
   float_list Map.empty PNone = Inl TypeError \<and>
   filter_args Map.empty None [''norms'' \<mapsto> PNone] = Inl TypeError \<and>
   [''attack_no_abort'' \<mapsto> PBool True, ''attack_norms'' \<mapsto> PList [PInt 1, PFloat PosInf],
    ''attack_min_eps'' \<mapsto> PInt 2, ''attack_verbose'' \<mapsto> PInt 3] (''attack_'' @ ''norms'')
     = Some (PList [PInt 1, PFloat PosInf]) \<and>
   float_list Map.empty (PList [PInt 1, PFloat PosInf]) = Inr (PList [PFloat (Finite 1), PFloat PosInf]) \<and>
   (\<exists>args. filter_args Map.empty (Some ''attack'')
       [''attack_no_abort'' \<mapsto> PBool True, ''attack_norms'' \<mapsto> PList [PInt 1, PFloat PosInf],
        ''attack_min_eps'' \<mapsto> PInt 2, ''attack_verbose'' \<mapsto> PInt 3] = Inr args \<and>
      dom args \<subseteq> set valid_args \<and>
      args ''min_eps'' = Some (PInt 2) \<and>
      args ''abort_early'' = Some (PBool False) \<and>
      args ''norms'' = Some (PList [PFloat (Finite 1), PFloat PosInf]))"
proof -
  let ?k0 = "[''norms'' \<mapsto> PNone]"
  let ?k1 = "[''attack_no_abort'' \<mapsto> PBool True, ''attack_norms'' \<mapsto> PList [PInt 1, PFloat PosInf],
    ''attack_min_eps'' \<mapsto> PInt 2, ''attack_verbose'' \<mapsto> PInt 3]"
  note t0 = filter_args_result [of ?k0 None Map.empty, simplified option.case]
  note t1 = filter_args_result [of ?k1 "Some ''attack''" Map.empty, simplified option.case]
  have h0: "?k0 ([] @ ''norms'') = Some PNone" by simp
  have f0: "float_list Map.empty PNone = Inl TypeError" by (simp add: float_list_def)
  have c0: "filter_args Map.empty None ?k0 = Inl TypeError"
    using t0 [THEN conjunct1, THEN spec, THEN spec, of PNone TypeError] h0 f0 by simp
  have h1: "?k1 (''attack_'' @ ''norms'') = Some (PList [PInt 1, PFloat PosInf])" by simp
  have f1: "float_list Map.empty (PList [PInt 1, PFloat PosInf])
              = Inr (PList [PFloat (Finite 1), PFloat PosInf])"
    by (simp add: float_list_def)
  obtain args where r: "filter_args Map.empty (Some ''attack'') ?k1 = Inr args"
    using t1 [THEN conjunct2, THEN conjunct1] h1 f1 by auto
  note p = t1 [THEN conjunct2, THEN conjunct2, THEN spec, THEN mp, OF r]
  have d: "dom args \<subseteq> set valid_args" using p by blast
  have m: "args ''min_eps'' = Some (PInt 2)"
    using p [THEN conjunct2, THEN conjunct1, THEN spec, of "''min_eps''"]
    by (simp add: valid_args_def)
  have a: "args ''abort_early'' = Some (PBool False)"
    using p [THEN conjunct2, THEN conjunct2, THEN conjunct1, THEN spec, of "PBool True"]
    by simp
  have n: "args ''norms'' = Some (PList [PFloat (Finite 1), PFloat PosInf])"
    using p [THEN conjunct2, THEN conjunct2, THEN conjunct2, THEN conjunct2, THEN conjunct1,
        THEN spec, of "PList [PInt 1, PFloat PosInf]"] f1
    by simp
  show ?thesis
    using h0 f0 c0 h1 f1 r d m a n by blast
qed


end
